theory Spec2Isabelle
  imports Main
begin

section \<open>Engine supervision in enginemanager.py\<close>

text \<open>
  The development embeds the classes \<open>Engine\<close> and \<open>EngineManager\<close> of
  \<open>server/jamovi/server/enginemanager.py\<close>. Python objects that are shared by
  reference (the analyses) live in a store; every method takes the state and returns the
  state it leaves behind together with the exception it raised, if any, because a Python
  method that raises keeps the assignments it made before.
\<close>

subsection \<open>Exceptions\<close>

datatype exn =
    AttributeError
  | ValueError
  | DecodeError
  | InvalidStateError
  | NanoMsgAPIError
  | IndexError

subsection \<open>Wire messages\<close>

text \<open>
  \<open>jcoms.Status\<close>: the source names the members ERROR and IN_PROGRESS; any other
  member of the generated enumeration is \<open>Status_other\<close>.
\<close>

datatype jcoms_Status = COMPLETE | IN_PROGRESS | ERROR | Status_other nat

datatype Perform = INIT | RUN | SAVE

text \<open>
  \<open>jcoms.AnalysisRequest\<close> with the fields \<open>Engine.send\<close> and \<open>Engine.stop\<close>
  assign. A field that is never assigned keeps its protocol-buffer default.
\<close>

record AnalysisRequest =
  req_sessionId :: string
  req_instanceId :: string
  req_analysisId :: nat
  req_name :: string
  req_ns :: string
  req_options :: string
  req_changed :: "string list"
  req_revision :: nat
  req_clearState :: bool
  req_perform :: Perform
  req_path :: string
  req_part :: string
  req_restartEngines :: bool

definition new_AnalysisRequest :: AnalysisRequest where
  "new_AnalysisRequest =
     \<lparr> req_sessionId = [], req_instanceId = [], req_analysisId = 0, req_name = [],
       req_ns = [], req_options = [], req_changed = [], req_revision = 0,
       req_clearState = False, req_perform = INIT, req_path = [], req_part = [],
       req_restartEngines = False \<rparr>"

text \<open>
  \<open>jcoms.AnalysisResponse\<close>: \<open>res_status\<close> is the numeric value of the status
  enumeration of the response, \<open>res_results\<close> the opaque result tree.
\<close>

record AnalysisResponse =
  res_revision :: nat
  res_status :: nat
  res_results :: string

text \<open>
  The payload of an envelope is a byte string. The model keeps what the bytes are the
  serialisation of; \<open>ParseFromString\<close> of an \<open>AnalysisResponse\<close> succeeds on the
  serialisation of a response and raises \<open>DecodeError\<close> otherwise.
\<close>

datatype Payload =
    Serialized_Request AnalysisRequest
  | Serialized_Response AnalysisResponse
  | Unparseable

record ComsMessage =
  msg_id :: nat
  msg_payload :: Payload
  msg_payloadType :: string
  msg_status :: jcoms_Status
  msg_error_cause :: string

definition AnalysisResponse_ParseFromString :: "Payload \<Rightarrow> AnalysisResponse option" where
  "AnalysisResponse_ParseFromString p =
     (case p of Serialized_Response r \<Rightarrow> Some r | _ \<Rightarrow> None)"

text \<open>
  The envelope \<open>Engine.send\<close> and \<open>Engine.stop\<close> build: id, payload and payload
  type are assigned, status and error keep their defaults.
\<close>

definition request_message :: "nat \<Rightarrow> AnalysisRequest \<Rightarrow> ComsMessage" where
  "request_message n request =
     \<lparr> msg_id = n, msg_payload = Serialized_Request request,
       msg_payloadType = ''AnalysisRequest'', msg_status = COMPLETE,
       msg_error_cause = [] \<rparr>"

subsection \<open>Analyses\<close>

text \<open>
  Modelled from the spec: \<open>Analysis.Status\<close> is declared in analyses.py, which is not
  part of the sources at hand. The spec gives a work item the statuses not-run, running
  and complete; the source names the members RUNNING and COMPLETE.
\<close>

datatype Analysis_Status = Analysis_NOT_RUN | Analysis_RUNNING | Analysis_COMPLETE

text \<open>
  Modelled from the spec: the completion handle of a pending operation, a promise-like
  object that is resolved exactly once, by \<open>set_result\<close> or by \<open>set_exception\<close>.
\<close>

datatype Completion = Pending | Succeeded ComsMessage | Failed string

text \<open>
  Modelled from the spec: \<open>Analysis.Op\<close>, the optional pending operation of a work
  item, with its waiting flag, its target path and part and its completion handle.
\<close>

record Op =
  waiting :: bool
  path :: string
  part :: string
  future :: Completion

record Analysis =
  a_id :: nat
  a_name :: string
  a_ns :: string
  a_sessionId :: string
  a_instanceId :: string
  a_options :: string
  a_changes :: "string list"
  a_revision :: nat
  a_clear_state :: bool
  a_status :: Analysis_Status
  a_results :: "AnalysisResponse option"
  a_op :: "Op option"

text \<open>
  Modelled from the spec: \<open>Analysis.needs_op\<close>, true when the item has a pending
  operation whose waiting flag is set.
\<close>

definition needs_op :: "Analysis \<Rightarrow> bool" where
  "needs_op a = (case a_op a of None \<Rightarrow> False | Some operation \<Rightarrow> waiting operation)"

text \<open>
  Modelled from the spec: \<open>Op.set_result\<close> and \<open>Op.set_exception\<close> resolve the
  completion handle; a handle that is already resolved refuses a second resolution.
\<close>

definition Op_set_result :: "ComsMessage \<Rightarrow> Op \<Rightarrow> exn + Op" where
  "Op_set_result message operation =
     (if future operation = Pending then Inr (operation\<lparr>future := Succeeded message\<rparr>)
      else Inl InvalidStateError)"

definition Op_set_exception :: "string \<Rightarrow> Op \<Rightarrow> exn + Op" where
  "Op_set_exception cause operation =
     (if future operation = Pending then Inr (operation\<lparr>future := Failed cause\<rparr>)
      else Inl InvalidStateError)"

text \<open>
  Modelled from the spec: \<open>Analysis.set_results\<close> is defined in analyses.py, which is
  not part of the sources at hand. The spec has a response applied to the work item as its
  partial or final result, an in-progress response without finalising the item, and names
  no other effect on the item: the results are stored and nothing else changes.
\<close>

definition set_results :: "AnalysisResponse \<Rightarrow> Analysis \<Rightarrow> Analysis" where
  "set_results results a = a\<lparr>a_results := Some results\<rparr>"

text \<open>
  The values of the members of \<open>Analysis.Status\<close> are not in the sources at hand, so the
  call \<open>Analysis.Status(v)\<close> is a parameter of the model: \<open>Status_of_value\<close> gives the
  member with value \<open>v\<close>, and \<open>None\<close> where the call raises \<open>ValueError\<close> because no
  member has that value.
\<close>

record Analyses_py =
  Status_of_value :: "nat \<Rightarrow> Analysis_Status option"

subsection \<open>Process, socket and thread handles\<close>

record Process =
  args :: "string list"
  returncode :: "int option"

text \<open>
  A \<open>nanomsg\<close> PAIR socket: the address it is bound to, its receive timeout, whether
  it has been closed, and the messages sent on it, oldest first.
\<close>

record Socket =
  bound :: "string option"
  recv_timeout :: "nat option"
  closed :: bool
  sent :: "ComsMessage list"

definition new_Socket :: Socket where
  "new_Socket = \<lparr> bound = None, recv_timeout = None, closed = False, sent = [] \<rparr>"

record Thread =
  started :: bool

subsection \<open>The engine and what it reaches through its parent\<close>

datatype Engine_Status = WAITING | INITING | RUNNING | OPPING

record Engine =
  data_path :: string
  conn_path :: string
  analysis :: "nat option"
  status :: Engine_Status
  process :: "Process option"
  socket :: "Socket option"
  thread :: "Thread option"
  message_id :: nat
  restarting :: bool
  stopping :: bool
  stopped :: bool

text \<open>\<open>Engine.__init__\<close>\<close>

definition new_Engine :: "string \<Rightarrow> string \<Rightarrow> Engine" where
  "new_Engine dp cp =
     \<lparr> data_path = dp, conn_path = cp, analysis = None, status = WAITING,
       process = None, socket = None, thread = None, message_id = 0,
       restarting = False, stopping = False, stopped = False \<rparr>"

text \<open>The dictionary an engine hands to the engine-event listeners.\<close>

record Engine_event =
  ev_type :: string
  ev_message :: string
  ev_cause :: string

datatype Listener_args = No_args | Event Engine_event

text \<open>
  \<open>asyncio.Queue\<close> as \<open>EngineManager._restart_task\<close> uses it: the items put (an
  engine is named by its connection path) and the count of unfinished tasks.
\<close>

record Queue =
  items :: "string list"
  unfinished_tasks :: nat

text \<open>
  The state outside the engine objects: the listener registrations and the restart queue
  of the manager, the store of analyses, and the calls made to listeners, oldest first.
  A listener is named by a number; calling it is recorded, not executed.
\<close>

record World =
  listeners :: "(string \<times> nat) list"
  restart_task :: Queue
  analyses :: "nat \<Rightarrow> Analysis"
  called :: "(nat \<times> Listener_args) list"

definition notify :: "string \<Rightarrow> Listener_args \<Rightarrow> World \<Rightarrow> World" where
  "notify kind a w =
     w\<lparr>called := called w @ map (\<lambda>l. (snd l, a)) (filter (\<lambda>l. fst l = kind) (listeners w))\<rparr>"

definition notify_slot_available :: "World \<Rightarrow> World" where
  "notify_slot_available w = notify ''slot-available'' No_args w"

definition notify_engine_event :: "Engine_event \<Rightarrow> World \<Rightarrow> World" where
  "notify_engine_event ev w = notify ''engine-event'' (Event ev) w"

definition add_slot_available_listener :: "nat \<Rightarrow> World \<Rightarrow> World" where
  "add_slot_available_listener l w = w\<lparr>listeners := listeners w @ [(''slot-available'', l)]\<rparr>"

definition add_engine_listener :: "nat \<Rightarrow> World \<Rightarrow> World" where
  "add_engine_listener l w = w\<lparr>listeners := listeners w @ [(''engine-event'', l)]\<rparr>"

text \<open>\<open>Queue.put_nowait\<close> on an unbounded queue and \<open>Queue.task_done\<close>.\<close>

definition put_nowait :: "string \<Rightarrow> Queue \<Rightarrow> Queue" where
  "put_nowait x q = q\<lparr>items := items q @ [x], unfinished_tasks := unfinished_tasks q + 1\<rparr>"

definition task_done :: "Queue \<Rightarrow> exn + Queue" where
  "task_done q =
     (if unfinished_tasks q = 0 then Inl ValueError
      else Inr (q\<lparr>unfinished_tasks := unfinished_tasks q - 1\<rparr>))"

text \<open>\<open>Queue.join\<close> lets its caller go on exactly when no task is unfinished.\<close>

definition join_resumes :: "Queue \<Rightarrow> bool" where
  "join_resumes q = (unfinished_tasks q = 0)"

type_synonym state = "Engine \<times> World"
type_synonym outcome = "state \<times> exn option"

subsection \<open>Sending\<close>

text \<open>\<open>self._socket.send(message.SerializeToString())\<close>\<close>

definition socket_send :: "ComsMessage \<Rightarrow> state \<Rightarrow> outcome" where
  "socket_send message st =
     (case st of (e, w) \<Rightarrow>
        (case socket e of
           None \<Rightarrow> ((e, w), Some AttributeError)
         | Some s \<Rightarrow>
             if closed s then ((e, w), Some NanoMsgAPIError)
             else ((e\<lparr>socket := Some (s\<lparr>sent := sent s @ [message]\<rparr>)\<rparr>, w), None)))"

text \<open>
  Modelled from the spec: the wire schema (jamovi_pb2) is not part of the sources at hand.
  The spec gives the id of an envelope and the revision of a request as uint64, and the
  analysis id is taken to be as wide; assigning a number outside that range to such a
  field raises \<open>ValueError\<close>.
\<close>

definition fits_uint64 :: "nat \<Rightarrow> bool" where
  "fits_uint64 n = (n < 2 ^ 64)"

text \<open>
  The end of \<open>Engine.send\<close> and of \<open>Engine.stop\<close>: the envelope takes the message
  counter as its id and the serialised request as its payload, and is sent.
\<close>

definition send_request :: "AnalysisRequest \<Rightarrow> state \<Rightarrow> outcome" where
  "send_request request st =
     (case st of (e, w) \<Rightarrow>
        if \<not> fits_uint64 (message_id e) then ((e, w), Some ValueError)
        else socket_send (request_message (message_id e) request) (e, w))"

text \<open>
  \<open>Engine.send(analysis, run)\<close>; \<open>r\<close> is the reference to the analysis. The
  assignments are in the order of the source, so that an exception leaves behind what was
  assigned before it.
\<close>

definition Engine_send :: "nat \<Rightarrow> bool \<Rightarrow> state \<Rightarrow> outcome" where
  "Engine_send r run st =
     (case st of (e, w) \<Rightarrow>
        let e1 = e\<lparr>message_id := message_id e + 1, analysis := Some r\<rparr>;
            a = analyses w r
        in
          if \<not> fits_uint64 (a_id a) then ((e1, w), Some ValueError)
          else
            let request = new_AnalysisRequest
                  \<lparr> req_sessionId := a_sessionId a, req_instanceId := a_instanceId a,
                    req_analysisId := a_id a, req_name := a_name a, req_ns := a_ns a \<rparr>
            in
              if a_status a = Analysis_COMPLETE \<and> needs_op a then
                (case a_op a of
                   None \<Rightarrow> ((e1, w), Some AttributeError)
                 | Some operation \<Rightarrow>
                     let a' = a\<lparr>a_op := Some (operation\<lparr>waiting := False\<rparr>)\<rparr>;
                         request' = request\<lparr> req_options := a_options a,
                                      req_perform := SAVE, req_path := path operation,
                                      req_part := part operation \<rparr>;
                         e2 = e1\<lparr>status := OPPING\<rparr>;
                         w' = w\<lparr>analyses := (analyses w)(r := a')\<rparr>
                     in send_request request' (e2, w'))
              else
                let a' = a\<lparr>a_status := Analysis_RUNNING\<rparr>;
                    w' = w\<lparr>analyses := (analyses w)(r := a')\<rparr>
                in
                  if \<not> fits_uint64 (a_revision a) then ((e1, w'), Some ValueError)
                  else
                    let request' = request\<lparr> req_options := a_options a,
                                     req_changed := a_changes a,
                                     req_revision := a_revision a,
                                     req_clearState := a_clear_state a,
                                     req_perform := (if run then RUN else INIT) \<rparr>;
                        e2 = e1\<lparr>status := (if run then RUNNING else INITING)\<rparr>
                    in send_request request' (e2, w'))"

text \<open>\<open>Engine.is_waiting\<close>\<close>

definition is_waiting :: "Engine \<Rightarrow> bool" where
  "is_waiting e = (status e = WAITING)"

subsection \<open>Receiving\<close>

text \<open>\<open>Engine._receive(message)\<close>\<close>

definition Engine_receive :: "Analyses_py \<Rightarrow> ComsMessage \<Rightarrow> state \<Rightarrow> outcome" where
  "Engine_receive py message st =
     (case st of (e, w) \<Rightarrow>
        if status e = WAITING then ((e, w), None)
        else if status e = OPPING then
          (let e1 = e\<lparr>status := WAITING\<rparr> in
           case analysis e1 of
             None \<Rightarrow> ((e1, w), Some AttributeError)
           | Some r \<Rightarrow>
               (case a_op (analyses w r) of
                  None \<Rightarrow> ((e1, w), Some AttributeError)
                | Some operation \<Rightarrow>
                    (case (if msg_status message = ERROR
                           then Op_set_exception (msg_error_cause message) operation
                           else Op_set_result message operation) of
                       Inl x \<Rightarrow> ((e1, w), Some x)
                     | Inr operation' \<Rightarrow>
                         ((e1\<lparr>analysis := None\<rparr>,
                           notify_slot_available
                             (w\<lparr>analyses := (analyses w)
                                  (r := (analyses w r)\<lparr>a_op := Some operation'\<rparr>)\<rparr>)),
                          None))))
        else
          (case AnalysisResponse_ParseFromString (msg_payload message) of
             None \<Rightarrow> ((e, w), Some DecodeError)
           | Some results \<Rightarrow>
               (case analysis e of
                  None \<Rightarrow> ((e, w), Some AttributeError)
                | Some r \<Rightarrow>
                    if res_revision results = a_revision (analyses w r) then
                      if msg_status message \<noteq> IN_PROGRESS then
                        (case Status_of_value py (res_status results) of
                           None \<Rightarrow> ((e, w), Some ValueError)
                         | Some s \<Rightarrow>
                             ((e\<lparr>status := WAITING, analysis := None\<rparr>,
                               notify_slot_available
                                 (w\<lparr>analyses := (analyses w)
                                      (r := set_results results
                                              ((analyses w r)\<lparr>a_status := s\<rparr>))\<rparr>)),
                              None))
                      else
                        ((e, w\<lparr>analyses := (analyses w)
                                 (r := set_results results (analyses w r))\<rparr>), None)
                    else ((e, w), None))))"

subsection \<open>Stopping and restarting\<close>

text \<open>\<open>Engine.stop()\<close>\<close>

definition Engine_stop :: "state \<Rightarrow> outcome" where
  "Engine_stop st =
     (case st of (e, w) \<Rightarrow>
        if stopped e then ((e, w), None)
        else
          let e1 = e\<lparr>stopping := True, message_id := message_id e + 1\<rparr>;
              request = new_AnalysisRequest\<lparr>req_restartEngines := True\<rparr>
          in send_request request (e1, w))"

text \<open>\<open>Engine.restart()\<close>\<close>

definition Engine_restart :: "state \<Rightarrow> outcome" where
  "Engine_restart st = (case st of (e, w) \<Rightarrow> Engine_stop (e\<lparr>restarting := True\<rparr>, w))"

subsection \<open>Starting\<close>

text \<open>
  What the operating system answers to the calls in the \<open>try\<close> block of
  \<open>Engine.start\<close>: each step either succeeds (\<open>None\<close>) or raises an exception whose
  \<open>str\<close> is the given cause. \<open>exe_path\<close> is the path of the engine executable, which
  the source computes from a configuration that is not part of the sources at hand.
\<close>

record Spawn =
  exe_path :: string
  Popen_raises :: "string option"
  Socket_raises :: "string option"
  set_recv_timeout_raises :: "string option"
  bind_raises :: "string option"
  Thread_start_raises :: "string option"

definition could_not_be_started :: "string \<Rightarrow> Engine_event" where
  "could_not_be_started cause =
     \<lparr> ev_type = ''error'', ev_message = ''Engine process could not be started'',
       ev_cause = cause \<rparr>"

text \<open>The \<open>except BaseException\<close> clause of \<open>Engine.start\<close>.\<close>

definition start_failed :: "string \<Rightarrow> state \<Rightarrow> outcome" where
  "start_failed cause st =
     (case st of (e, w) \<Rightarrow> ((e, notify_engine_event (could_not_be_started cause) w), None))"

text \<open>\<open>Engine.start()\<close>\<close>

definition Engine_start :: "Spawn \<Rightarrow> state \<Rightarrow> outcome" where
  "Engine_start os st =
     (case st of (e, w) \<Rightarrow>
        (case Popen_raises os of
           Some cause \<Rightarrow> start_failed cause (e, w)
         | None \<Rightarrow>
             let e1 = e\<lparr>process := Some \<lparr> args = [exe_path os, ''--con='' @ conn_path e,
                                                  ''--path='' @ data_path e],
                                          returncode = None \<rparr>\<rparr>
             in
               (case Socket_raises os of
                  Some cause \<Rightarrow> start_failed cause (e1, w)
                | None \<Rightarrow>
                    let e2 = e1\<lparr>socket := Some new_Socket\<rparr> in
                      (case set_recv_timeout_raises os of
                         Some cause \<Rightarrow> start_failed cause (e2, w)
                       | None \<Rightarrow>
                           let e3 = e2\<lparr>socket := Some (new_Socket\<lparr>recv_timeout := Some 500\<rparr>)\<rparr>
                           in
                             (case bind_raises os of
                                Some cause \<Rightarrow> start_failed cause (e3, w)
                              | None \<Rightarrow>
                                  let e4 = e3\<lparr>socket := Some (new_Socket
                                                \<lparr>recv_timeout := Some 500,
                                                 bound := Some (conn_path e)\<rparr>)\<rparr>
                                  in
                                    (case Thread_start_raises os of
                                       Some cause \<Rightarrow>
                                         start_failed cause
                                           (e4\<lparr>thread := Some \<lparr>started = False\<rparr>\<rparr>, w)
                                     | None \<Rightarrow>
                                         ((e4\<lparr>thread := Some \<lparr>started = True\<rparr>\<rparr>, w),
                                          None)))))))"

subsection \<open>The receiver thread\<close>

text \<open>\<open>EngineManager._notify_engine_restarted\<close>\<close>

definition notify_engine_restarted :: "World \<Rightarrow> exn + World" where
  "notify_engine_restarted w =
     (case task_done (restart_task w) of
        Inl x \<Rightarrow> Inl x
      | Inr q \<Rightarrow> Inr (w\<lparr>restart_task := q\<rparr>))"

text \<open>
  The first statement of \<open>Engine._run\<close>, before the receive loop: an engine that is
  restarting reports to its parent and clears the flag.
\<close>

definition Engine_run_begin :: "state \<Rightarrow> outcome" where
  "Engine_run_begin st =
     (case st of (e, w) \<Rightarrow>
        if restarting e then
          (case notify_engine_restarted w of
             Inl x \<Rightarrow> ((e, w), Some x)
           | Inr w' \<Rightarrow> ((e\<lparr>restarting := False\<rparr>, w'), None))
        else ((e, w), None))"

subsection \<open>Closing\<close>

text \<open>\<open>str\<close> of an integer, for \<open>'Exit code: {}'.format(returncode)\<close>.\<close>

fun str_nat :: "nat \<Rightarrow> string" where
  "str_nat n =
     (if n < 10 then [''0123456789'' ! n]
      else str_nat (n div 10) @ [''0123456789'' ! (n mod 10)])"

declare str_nat.simps [simp del]

definition str_int :: "int \<Rightarrow> string" where
  "str_int i = (if i < 0 then CHR ''-'' # str_nat (nat (- i)) else str_nat (nat i))"

definition format_returncode :: "int option \<Rightarrow> string" where
  "format_returncode rc = (case rc of None \<Rightarrow> ''None'' | Some i \<Rightarrow> str_int i)"

definition process_terminated :: "int option \<Rightarrow> Engine_event" where
  "process_terminated rc =
     \<lparr> ev_type = ''error'', ev_message = ''Engine process terminated'',
       ev_cause = ''Exit code: '' @ format_returncode rc \<rparr>"

text \<open>
  \<open>Engine._on_closing()\<close>; \<open>os\<close> is what the operating system answers should the
  engine be started again.
\<close>

definition Engine_on_closing :: "Spawn \<Rightarrow> state \<Rightarrow> outcome" where
  "Engine_on_closing os st =
     (case st of (e, w) \<Rightarrow>
        (case socket e of
           None \<Rightarrow> ((e, w), Some AttributeError)
         | Some s \<Rightarrow>
             let e1 = e\<lparr>socket := Some (s\<lparr>closed := True\<rparr>)\<rparr> in
               if restarting e1 then Engine_start os (e1\<lparr>stopping := False\<rparr>, w)
               else
                 let e2 = e1\<lparr>stopped := True\<rparr> in
                   (case process e2 of
                      None \<Rightarrow> ((e2, w), Some AttributeError)
                    | Some p \<Rightarrow>
                        ((e2, notify_engine_event (process_terminated (returncode p)) w),
                         None))))"

subsection \<open>The manager\<close>

type_synonym pool = "Engine list \<times> World"

text \<open>
  \<open>for engine in self._engines: ...\<close> with a body that may raise: the engines already
  visited, the engines still to visit, and the world. An exception ends the loop and leaves
  the remaining engines as they are.
\<close>

fun for_engines ::
  "(state \<Rightarrow> outcome) \<Rightarrow> Engine list \<Rightarrow> Engine list \<Rightarrow> World \<Rightarrow> pool \<times> exn option" where
  "for_engines body visited [] w = ((visited, w), None)"
| "for_engines body visited (e # es) w =
     (case body (e, w) of
        ((e', w'), Some x) \<Rightarrow> ((visited @ e' # es, w'), Some x)
      | ((e', w'), None) \<Rightarrow> for_engines body (visited @ [e']) es w')"

text \<open>\<open>EngineManager.__init__\<close>: three slots, one connection path per slot.\<close>

definition new_EngineManager :: "string \<Rightarrow> string \<Rightarrow> (nat \<Rightarrow> Analysis) \<Rightarrow> pool" where
  "new_EngineManager dp conn_root store =
     (map (\<lambda>index. new_Engine dp (conn_root @ ''-'' @ str_nat index)) [0..<3],
      \<lparr> listeners = [], restart_task = \<lparr> items = [], unfinished_tasks = 0 \<rparr>,
        analyses = store, called = [] \<rparr>)"

text \<open>\<open>EngineManager.stop()\<close>\<close>

definition EngineManager_stop :: "pool \<Rightarrow> pool \<times> exn option" where
  "EngineManager_stop m = (case m of (es, w) \<Rightarrow> for_engines Engine_stop [] es w)"

text \<open>
  \<open>EngineManager.start()\<close>: the engines are started in slot order, each with the
  answers of the operating system for its turn.
\<close>

fun EngineManager_start_loop ::
  "Spawn list \<Rightarrow> Engine list \<Rightarrow> Engine list \<Rightarrow> World \<Rightarrow> pool \<times> exn option" where
  "EngineManager_start_loop oss visited [] w = ((visited, w), None)"
| "EngineManager_start_loop [] visited (e # es) w = ((visited @ e # es, w), None)"
| "EngineManager_start_loop (os # oss) visited (e # es) w =
     (case Engine_start os (e, w) of
        ((e', w'), Some x) \<Rightarrow> ((visited @ e' # es, w'), Some x)
      | ((e', w'), None) \<Rightarrow> EngineManager_start_loop oss (visited @ [e']) es w')"

definition EngineManager_start :: "Spawn list \<Rightarrow> pool \<Rightarrow> pool \<times> exn option" where
  "EngineManager_start oss m = (case m of (es, w) \<Rightarrow> EngineManager_start_loop oss [] es w)"

text \<open>
  The body of the loop of \<open>EngineManager.restart_engines\<close>: restart the engine, then
  put it on the restart queue.
\<close>

definition restart_and_register :: "state \<Rightarrow> outcome" where
  "restart_and_register st =
     (case Engine_restart st of
        ((e', w'), Some x) \<Rightarrow> ((e', w'), Some x)
      | ((e', w'), None) \<Rightarrow>
          ((e', w'\<lparr>restart_task := put_nowait (conn_path e') (restart_task w')\<rparr>), None))"

text \<open>
  \<open>EngineManager.restart_engines()\<close> up to its \<open>await\<close>: the state in which the
  caller waits for \<open>join\<close>, or the exception the loop raised.
\<close>

definition EngineManager_restart_engines :: "pool \<Rightarrow> pool \<times> exn option" where
  "EngineManager_restart_engines m =
     (case m of (es, w) \<Rightarrow> for_engines restart_and_register [] es w)"

text \<open>Whether the caller of \<open>restart_engines\<close> is let past \<open>join\<close> in a state.\<close>

definition restart_engines_resumes :: "pool \<Rightarrow> bool" where
  "restart_engines_resumes m = join_resumes (restart_task (snd m))"

text \<open>
  \<open>EngineManager.__getitem__\<close> followed by a method of the engine found: the method
  runs on the engine in the slot and the slot holds the engine it leaves.
\<close>

definition at_slot :: "nat \<Rightarrow> (state \<Rightarrow> outcome) \<Rightarrow> pool \<Rightarrow> pool \<times> exn option" where
  "at_slot i method m =
     (case m of (es, w) \<Rightarrow>
        if i < length es then
          (case method (es ! i, w) of ((e', w'), x) \<Rightarrow> ((es[i := e'], w'), x))
        else ((es, w), Some IndexError))"

text \<open>
  The receiver threads of the engines in the given slots each run the first statement of
  \<open>_run\<close>, in the order given.
\<close>

fun threads_begin :: "nat list \<Rightarrow> pool \<Rightarrow> pool \<times> exn option" where
  "threads_begin [] m = (m, None)"
| "threads_begin (i # slots) m =
     (case at_slot i Engine_run_begin m of
        (m', Some x) \<Rightarrow> (m', Some x)
      | (m', None) \<Rightarrow> threads_begin slots m')"

section \<open>Sample states\<close>

text \<open>
  An analysis at revision 5 with no pending operation, a pool-side world with one listener
  of each kind, and an operating system on which every step of a start succeeds.
\<close>

definition sample_analysis :: Analysis where
  "sample_analysis =
     \<lparr> a_id = 7, a_name = ''descriptives'', a_ns = ''jmv'', a_sessionId = ''session'',
       a_instanceId = ''instance'', a_options = ''options'', a_changes = [''vars''],
       a_revision = 5, a_clear_state = False, a_status = Analysis_NOT_RUN,
       a_results = None, a_op = None \<rparr>"

definition sample_saving :: Analysis where
  "sample_saving =
     sample_analysis\<lparr> a_status := Analysis_COMPLETE,
       a_op := Some \<lparr> waiting = True, path = ''out.html'', part = ''1'',
                       future = Pending \<rparr> \<rparr>"

definition sample_world :: World where
  "sample_world =
     \<lparr> listeners = [(''slot-available'', 4), (''engine-event'', 5)],
       restart_task = \<lparr> items = [], unfinished_tasks = 0 \<rparr>,
       analyses = (\<lambda>r. if r = 2 then sample_saving else sample_analysis),
       called = [] \<rparr>"

definition sample_os :: Spawn where
  "sample_os =
     \<lparr> exe_path = ''/bin/jamovi-engine'', Popen_raises = None, Socket_raises = None,
       set_recv_timeout_raises = None, bind_raises = None, Thread_start_raises = None \<rparr>"

definition sample_py :: Analyses_py where
  "sample_py =
     \<lparr> Status_of_value = (\<lambda>v. if v = 0 then Some Analysis_NOT_RUN
                              else if v = 2 then Some Analysis_RUNNING
                              else if v = 3 then Some Analysis_COMPLETE else None) \<rparr>"

definition sample_response :: "nat \<Rightarrow> jcoms_Status \<Rightarrow> ComsMessage" where
  "sample_response revision st =
     \<lparr> msg_id = 1,
       msg_payload = Serialized_Response
         \<lparr> res_revision = revision, res_status = 3, res_results = ''table'' \<rparr>,
       msg_payloadType = ''AnalysisResponse'', msg_status = st,
       msg_error_cause = ''disk full'' \<rparr>"

text \<open>A started engine, the same engine running analysis 3, and saving analysis 2.\<close>

definition sample_started :: state where
  "sample_started = fst (Engine_start sample_os (new_Engine ''/data'' ''ipc://conn-0'', sample_world))"

definition sample_running :: state where
  "sample_running = fst (Engine_send 3 True sample_started)"

definition sample_opping :: state where
  "sample_opping = fst (Engine_send 2 True sample_started)"

text \<open>The outcomes of a stale, a partial and a final response to the running engine.\<close>

definition sample_stale :: outcome where
  "sample_stale = Engine_receive sample_py (sample_response 4 COMPLETE) sample_running"

definition sample_partial :: outcome where
  "sample_partial = Engine_receive sample_py (sample_response 5 IN_PROGRESS) sample_running"

definition sample_final :: outcome where
  "sample_final = Engine_receive sample_py (sample_response 5 COMPLETE) sample_running"

text \<open>The outcomes of a failed and of a successful save.\<close>

definition sample_save_failed :: outcome where
  "sample_save_failed = Engine_receive sample_py (sample_response 0 ERROR) sample_opping"

definition sample_save_done :: outcome where
  "sample_save_done = Engine_receive sample_py (sample_response 0 COMPLETE) sample_opping"

text \<open>
  An engine whose process was killed, with and without the restarting flag; operating
  systems on which the executable is missing or no socket can be made.
\<close>

definition sample_died :: "bool \<Rightarrow> Engine" where
  "sample_died flag =
     (fst sample_started)\<lparr> restarting := flag, stopping := flag,
       process := Some \<lparr> args = [''/bin/jamovi-engine'', ''--con=ipc://conn-0'',
                                   ''--path=/data''],
                           returncode = Some (- 9) \<rparr> \<rparr>"

definition sample_os_no_exe :: Spawn where
  "sample_os_no_exe = sample_os\<lparr>Popen_raises := Some ''No such file or directory''\<rparr>"

definition sample_os_no_socket :: Spawn where
  "sample_os_no_socket = sample_os\<lparr>Socket_raises := Some ''Too many open files''\<rparr>"

text \<open>
  A manager with an engine-event listener; the same after a start in which the first
  engine could not be spawned, and after a start in which every engine was.
\<close>

definition sample_pool :: pool where
  "sample_pool =
     (case new_EngineManager ''/data'' ''ipc://conn'' (\<lambda>r. sample_analysis) of
        (es, w) \<Rightarrow> (es, add_engine_listener 5 w))"

definition sample_pool_failed :: pool where
  "sample_pool_failed =
     fst (EngineManager_start [sample_os_no_exe, sample_os, sample_os] sample_pool)"

definition sample_pool_started :: pool where
  "sample_pool_started =
     fst (EngineManager_start [sample_os, sample_os, sample_os] sample_pool)"

text \<open>
  A final response at the live revision whose payload carries a status value that is not
  the value of a member of \<open>Analysis.Status\<close>, and its outcome on the running engine.
\<close>

definition sample_unknown_status :: ComsMessage where
  "sample_unknown_status =
     \<lparr> msg_id = 1,
       msg_payload = Serialized_Response
         \<lparr> res_revision = 5, res_status = 9, res_results = ''table'' \<rparr>,
       msg_payloadType = ''AnalysisResponse'', msg_status = COMPLETE,
       msg_error_cause = [] \<rparr>"

definition sample_unknown :: outcome where
  "sample_unknown = Engine_receive sample_py sample_unknown_status sample_running"




text \<open>
  The started manager after two calls of \<open>restart_engines\<close> in a row, and a started
  manager whose first engine has used up its message counter.
\<close>

definition sample_pool_twice :: pool where
  "sample_pool_twice =
     fst (EngineManager_restart_engines
            (fst (EngineManager_restart_engines sample_pool_started)))"

definition sample_pool_exhausted :: pool where
  "sample_pool_exhausted =
     (case sample_pool_started of
        (es, w) \<Rightarrow> (map (\<lambda>e. e\<lparr>message_id := 2 ^ 64 - 1\<rparr>) es, w))"

section \<open>Properties\<close>

lemma sample_started_eq:
  "sample_started =
     (\<lparr> data_path = ''/data'', conn_path = ''ipc://conn-0'', analysis = None,
        status = WAITING,
        process = Some \<lparr> args = [''/bin/jamovi-engine'', ''--con=ipc://conn-0'', ''--path=/data''],
                          returncode = None \<rparr>,
        socket = Some \<lparr> bound = Some ''ipc://conn-0'', recv_timeout = Some 500,
                         closed = False, sent = [] \<rparr>,
        thread = Some \<lparr> started = True \<rparr>, message_id = 0, restarting = False,
        stopping = False, stopped = False \<rparr>, sample_world)"
  by (simp add: sample_started_def Engine_start_def sample_os_def new_Engine_def new_Socket_def)

lemma sample_running_engine:
  "status (fst sample_running) = RUNNING" "analysis (fst sample_running) = Some 3"
  "a_revision (analyses (snd sample_running) 3) = 5"
  "a_status (analyses (snd sample_running) 3) = Analysis_RUNNING"
  "called (snd sample_running) = []"
  "listeners (snd sample_running) = [(''slot-available'', 4), (''engine-event'', 5)]"
  by (simp_all add: sample_running_def sample_started_eq Engine_send_def send_request_def fits_uint64_def socket_send_def
       sample_world_def sample_analysis_def sample_saving_def needs_op_def Let_def)

lemma sample_opping_engine:
  "status (fst sample_opping) = OPPING" "analysis (fst sample_opping) = Some 2"
  "a_op (analyses (snd sample_opping) 2) =
     Some \<lparr> waiting = False, path = ''out.html'', part = ''1'', future = Pending \<rparr>"
  "called (snd sample_opping) = []"
  "listeners (snd sample_opping) = [(''slot-available'', 4), (''engine-event'', 5)]"
  by (simp_all add: sample_opping_def sample_started_eq Engine_send_def send_request_def fits_uint64_def socket_send_def
       sample_world_def sample_analysis_def sample_saving_def needs_op_def Let_def)

text \<open>
  C1. An engine that is initialising or running its current analysis and receives a
  response whose payload decodes to a revision other than the live revision of that
  analysis drops the response: the engine, the analysis (status and results included) and
  the listener calls are all as before, and nothing is raised.
\<close>

theorem stale_response_dropped:
  assumes "status e = INITING \<or> status e = RUNNING"
    and "analysis e = Some r"
    and "msg_payload message = Serialized_Response results"
    and "res_revision results \<noteq> a_revision (analyses w r)"
  shows "Engine_receive py message (e, w) = ((e, w), None)"
  using assms by (auto simp: Engine_receive_def AnalysisResponse_ParseFromString_def)

theorem stale_response_dropped_witness:
  "(status (fst sample_running) = INITING \<or> status (fst sample_running) = RUNNING) \<and>
   analysis (fst sample_running) = Some 3 \<and>
   a_revision (analyses (snd sample_running) 3) = 5 \<and>
   sample_stale = (sample_running, None)"
  using stale_response_dropped [where e = "fst sample_running" and w = "snd sample_running"
      and r = 3 and py = sample_py and message = "sample_response 4 COMPLETE"
      and results = "\<lparr> res_revision = 4, res_status = 3, res_results = ''table'' \<rparr>"]
  by (simp add: sample_running_engine sample_response_def sample_stale_def)

text \<open>
  C2, as stated, fails: a final response at the live revision whose payload carries a
  status value that is not the value of a member of \<open>Analysis.Status\<close> raises
  \<open>ValueError\<close>; the engine stays RUNNING with its current analysis, the analysis stays
  running and no listener is called.
\<close>

theorem final_response_unknown_status_counterexample:
  "status (fst sample_running) = RUNNING \<and>
   analysis (fst sample_running) = Some 3 \<and>
   a_revision (analyses (snd sample_running) 3) = 5 \<and>
   msg_status sample_unknown_status \<noteq> IN_PROGRESS \<and>
   msg_payload sample_unknown_status =
     Serialized_Response \<lparr> res_revision = 5, res_status = 9, res_results = ''table'' \<rparr> \<and>
   snd sample_unknown = Some ValueError \<and>
   status (fst (fst sample_unknown)) = RUNNING \<and>
   analysis (fst (fst sample_unknown)) = Some 3 \<and>
   a_status (analyses (snd (fst sample_unknown)) 3) = Analysis_RUNNING \<and>
   called (snd (fst sample_unknown)) = []"
proof -
  obtain e w where sr: "sample_running = (e, w)"
    by (cases sample_running)
  from sample_running_engine
  have f: "status e = RUNNING" "analysis e = Some 3" "a_revision (analyses w 3) = 5"
    "a_status (analyses w 3) = Analysis_RUNNING" "called w = []"
    by (simp_all add: sr)
  have "Engine_receive sample_py sample_unknown_status (e, w) = ((e, w), Some ValueError)"
    by (simp add: Engine_receive_def AnalysisResponse_ParseFromString_def
          sample_unknown_status_def sample_py_def f)
  then show ?thesis
    by (simp add: sample_unknown_def sr f sample_unknown_status_def)
qed

text \<open>
  C2, amended. An engine that is initialising or running its current analysis and receives
  a response at the live revision of that analysis: when the envelope status is IN_PROGRESS
  the results are stored on the analysis and nothing else changes (engine, status of the
  analysis, listener calls); otherwise, when the status value of the payload is the value
  of a member of \<open>Analysis.Status\<close>, the status of the analysis becomes that member, the
  results are stored, the engine is WAITING without a current analysis and every
  slot-available listener is called once; and when it is the value of no member,
  \<open>ValueError\<close> is raised and nothing changes.
\<close>

theorem matching_response_applied:
  assumes "status e = INITING \<or> status e = RUNNING"
    and "analysis e = Some r"
    and "msg_payload message = Serialized_Response results"
    and "res_revision results = a_revision (analyses w r)"
    and "Engine_receive py message (e, w) = ((e', w'), x)"
  shows "(msg_status message = IN_PROGRESS \<longrightarrow>
            x = None \<and> e' = e \<and> called w' = called w \<and>
            a_status (analyses w' r) = a_status (analyses w r) \<and>
            analyses w' = (analyses w)(r := (analyses w r)\<lparr>a_results := Some results\<rparr>)) \<and>
         (msg_status message \<noteq> IN_PROGRESS \<longrightarrow>
            (\<forall>s. Status_of_value py (res_status results) = Some s \<longrightarrow>
               x = None \<and> e' = e\<lparr>status := WAITING, analysis := None\<rparr> \<and>
               called w' = called w @ map (\<lambda>l. (snd l, No_args))
                             (filter (\<lambda>l. fst l = ''slot-available'') (listeners w)) \<and>
               analyses w' = (analyses w)
                 (r := (analyses w r)\<lparr>a_status := s, a_results := Some results\<rparr>)) \<and>
            (Status_of_value py (res_status results) = None \<longrightarrow>
               x = Some ValueError \<and> e' = e \<and> w' = w))"
  using assms
  by (auto simp: Engine_receive_def AnalysisResponse_ParseFromString_def
        notify_slot_available_def notify_def set_results_def)

theorem matching_response_applied_witness:
  "snd sample_partial = None \<and> fst (fst sample_partial) = fst sample_running \<and>
   called (snd (fst sample_partial)) = [] \<and>
   a_status (analyses (snd (fst sample_partial)) 3) = Analysis_RUNNING \<and>
   a_results (analyses (snd (fst sample_partial)) 3) =
     Some \<lparr> res_revision = 5, res_status = 3, res_results = ''table'' \<rparr> \<and>
   snd sample_final = None \<and> status (fst (fst sample_final)) = WAITING \<and>
   analysis (fst (fst sample_final)) = None \<and>
   called (snd (fst sample_final)) = [(4, No_args)] \<and>
   a_status (analyses (snd (fst sample_final)) 3) = Analysis_COMPLETE \<and>
   snd sample_unknown = Some ValueError \<and>
   fst (fst sample_unknown) = fst sample_running \<and>
   snd (fst sample_unknown) = snd sample_running"
proof -
  obtain e w where sr: "sample_running = (e, w)"
    by (cases sample_running)
  from sample_running_engine
  have f: "status e = RUNNING" "analysis e = Some 3" "a_revision (analyses w 3) = 5"
    "a_status (analyses w 3) = Analysis_RUNNING" "called w = []"
    "listeners w = [(''slot-available'', 4), (''engine-event'', 5)]"
    by (simp_all add: sr)
  have h: "status e = INITING \<or> status e = RUNNING"
    using f(1) by simp
  have pl: "msg_payload (sample_response 5 st) =
              Serialized_Response \<lparr> res_revision = 5, res_status = 3, res_results = ''table'' \<rparr>"
    for st by (simp add: sample_response_def)
  have pu: "msg_payload sample_unknown_status =
              Serialized_Response \<lparr> res_revision = 5, res_status = 9, res_results = ''table'' \<rparr>"
    by (simp add: sample_unknown_status_def)
  have rv: "res_revision \<lparr> res_revision = 5, res_status = v, res_results = ''table'' \<rparr> =
              a_revision (analyses w 3)"
    for v using f(3) by simp
  obtain e1 w1 x1 where
    p: "Engine_receive sample_py (sample_response 5 IN_PROGRESS) (e, w) = ((e1, w1), x1)"
    by (metis prod.exhaust)
  obtain e2 w2 x2 where
    q: "Engine_receive sample_py (sample_response 5 COMPLETE) (e, w) = ((e2, w2), x2)"
    by (metis prod.exhaust)
  obtain e3 w3 x3 where
    u: "Engine_receive sample_py sample_unknown_status (e, w) = ((e3, w3), x3)"
    by (metis prod.exhaust)
  have partial: "x1 = None \<and> e1 = e \<and> called w1 = [] \<and>
                 a_status (analyses w1 3) = Analysis_RUNNING \<and>
                 a_results (analyses w1 3) =
                   Some \<lparr> res_revision = 5, res_status = 3, res_results = ''table'' \<rparr>"
    using matching_response_applied [OF h f(2) pl rv p] f
    by (simp add: sample_response_def)
  have final: "x2 = None \<and> status e2 = WAITING \<and> analysis e2 = None \<and>
               called w2 = [(4, No_args)] \<and>
               a_status (analyses w2 3) = Analysis_COMPLETE"
    using matching_response_applied [OF h f(2) pl rv q] f
    by (simp add: sample_response_def sample_py_def)
  have unknown: "x3 = Some ValueError \<and> e3 = e \<and> w3 = w"
    using matching_response_applied [OF h f(2) pu rv u]
    by (simp add: sample_unknown_status_def sample_py_def)
  show ?thesis
    using partial final unknown
    by (simp add: sample_partial_def sample_final_def sample_unknown_def sr p q u)
qed

text \<open>
  C5. An engine that is performing an operation whose completion handle is pending and
  receives any response goes back to WAITING without a current analysis and calls every
  slot-available listener once; the handle fails with the cause the response carries when
  its status is ERROR and succeeds with the response otherwise.
\<close>

theorem operation_response_resolves:
  assumes "status e = OPPING"
    and "analysis e = Some r"
    and "a_op (analyses w r) = Some operation"
    and "future operation = Pending"
    and "Engine_receive py message (e, w) = ((e', w'), x)"
  shows "x = None \<and> status e' = WAITING \<and> analysis e' = None \<and>
         called w' = called w @ map (\<lambda>l. (snd l, No_args)) (filter (\<lambda>l. fst l = ''slot-available'') (listeners w)) \<and>
         a_op (analyses w' r) =
           Some (operation\<lparr>future := (if msg_status message = ERROR
                                       then Failed (msg_error_cause message)
                                       else Succeeded message)\<rparr>)"
  using assms
  by (auto simp: Engine_receive_def Op_set_exception_def Op_set_result_def
        notify_slot_available_def notify_def)

theorem operation_response_resolves_witness:
  "snd sample_save_failed = None \<and> status (fst (fst sample_save_failed)) = WAITING \<and>
   analysis (fst (fst sample_save_failed)) = None \<and>
   called (snd (fst sample_save_failed)) = [(4, No_args)] \<and>
   a_op (analyses (snd (fst sample_save_failed)) 2) =
     Some \<lparr> waiting = False, path = ''out.html'', part = ''1'',
            future = Failed ''disk full'' \<rparr> \<and>
   snd sample_save_done = None \<and> status (fst (fst sample_save_done)) = WAITING \<and>
   a_op (analyses (snd (fst sample_save_done)) 2) =
     Some \<lparr> waiting = False, path = ''out.html'', part = ''1'',
            future = Succeeded (sample_response 0 COMPLETE) \<rparr>"
  using
    operation_response_resolves [where e = "fst sample_opping" and w = "snd sample_opping"
      and r = 2 and py = sample_py and message = "sample_response 0 ERROR"
      and operation = "\<lparr> waiting = False, path = ''out.html'', part = ''1'',
                           future = Pending \<rparr>"
      and e' = "fst (fst sample_save_failed)" and w' = "snd (fst sample_save_failed)"
      and x = "snd sample_save_failed"]
    operation_response_resolves [where e = "fst sample_opping" and w = "snd sample_opping"
      and r = 2 and py = sample_py and message = "sample_response 0 COMPLETE"
      and operation = "\<lparr> waiting = False, path = ''out.html'', part = ''1'',
                           future = Pending \<rparr>"
      and e' = "fst (fst sample_save_done)" and w' = "snd (fst sample_save_done)"
      and x = "snd sample_save_done"]
  by (simp add: sample_opping_engine sample_response_def
        sample_save_failed_def sample_save_done_def)

text \<open>
  C4. \<open>Engine._on_closing\<close> on an engine whose socket exists and whose process has
  exited with a return code closes the socket. With the restarting flag set it clears the
  stopping flag and is from then on \<open>Engine.start\<close>; when every step of that start
  succeeds there is a new process, a new open socket bound to the same connection path, no
  listener call, and the stopped flag is as before. Without the flag the engine is marked
  stopped, nothing else changes in it, and every engine-event listener is called once with
  an error event whose cause is the exit code.
\<close>

theorem closing_restarts_or_stops:
  assumes "socket e = Some s"
    and "process e = Some p"
    and "returncode p = Some rc"
    and "Engine_on_closing os (e, w) = ((e', w'), x)"
  shows "(restarting e \<longrightarrow>
            ((e', w'), x) = Engine_start os (e\<lparr>socket := Some (s\<lparr>closed := True\<rparr>), stopping := False\<rparr>, w) \<and>
            (Popen_raises os = None \<and> Socket_raises os = None \<and>
             set_recv_timeout_raises os = None \<and> bind_raises os = None \<and>
             Thread_start_raises os = None \<longrightarrow>
               x = None \<and> w' = w \<and> stopped e' = stopped e \<and> stopping e' = False \<and>
               process e' = Some \<lparr> args = [exe_path os, ''--con='' @ conn_path e,
                                             ''--path='' @ data_path e], returncode = None \<rparr> \<and>
               socket e' = Some \<lparr> bound = Some (conn_path e), recv_timeout = Some 500,
                                    closed = False, sent = [] \<rparr> \<and>
               thread e' = Some \<lparr> started = True \<rparr> \<and> conn_path e' = conn_path e)) \<and>
         (\<not> restarting e \<longrightarrow>
            x = None \<and>
            e' = e\<lparr>socket := Some (s\<lparr>closed := True\<rparr>), stopped := True\<rparr> \<and>
            w' = w\<lparr>called := called w @ map (\<lambda>l. (snd l, Event
                      \<lparr> ev_type = ''error'', ev_message = ''Engine process terminated'',
                        ev_cause = ''Exit code: '' @ str_int rc \<rparr>))
                    (filter (\<lambda>l. fst l = ''engine-event'') (listeners w))\<rparr>)"
  using assms
  by (auto simp: Engine_on_closing_def Engine_start_def Let_def new_Socket_def
        notify_engine_event_def notify_def process_terminated_def format_returncode_def)

theorem closing_restarts_or_stops_witness:
  "stopped (fst (fst (Engine_on_closing sample_os (sample_died False, sample_world)))) \<and>
   called (snd (fst (Engine_on_closing sample_os (sample_died False, sample_world)))) =
     [(5, Event \<lparr> ev_type = ''error'', ev_message = ''Engine process terminated'',
                  ev_cause = ''Exit code: -9'' \<rparr>)] \<and>
   \<not> stopped (fst (fst (Engine_on_closing sample_os (sample_died True, sample_world)))) \<and>
   \<not> stopping (fst (fst (Engine_on_closing sample_os (sample_died True, sample_world)))) \<and>
   called (snd (fst (Engine_on_closing sample_os (sample_died True, sample_world)))) = [] \<and>
   socket (fst (fst (Engine_on_closing sample_os (sample_died True, sample_world)))) =
     Some \<lparr> bound = Some ''ipc://conn-0'', recv_timeout = Some 500, closed = False,
            sent = [] \<rparr>"
  using
    closing_restarts_or_stops [where e = "sample_died False" and w = sample_world
      and os = sample_os and rc = "- 9"
      and s = "\<lparr> bound = Some ''ipc://conn-0'', recv_timeout = Some 500, closed = False,
                  sent = [] \<rparr>"
      and p = "\<lparr> args = [''/bin/jamovi-engine'', ''--con=ipc://conn-0'', ''--path=/data''],
                  returncode = Some (- 9) \<rparr>"
      and e' = "fst (fst (Engine_on_closing sample_os (sample_died False, sample_world)))"
      and w' = "snd (fst (Engine_on_closing sample_os (sample_died False, sample_world)))"
      and x = "snd (Engine_on_closing sample_os (sample_died False, sample_world))"]
    closing_restarts_or_stops [where e = "sample_died True" and w = sample_world
      and os = sample_os and rc = "- 9"
      and s = "\<lparr> bound = Some ''ipc://conn-0'', recv_timeout = Some 500, closed = False,
                  sent = [] \<rparr>"
      and p = "\<lparr> args = [''/bin/jamovi-engine'', ''--con=ipc://conn-0'', ''--path=/data''],
                  returncode = Some (- 9) \<rparr>"
      and e' = "fst (fst (Engine_on_closing sample_os (sample_died True, sample_world)))"
      and w' = "snd (fst (Engine_on_closing sample_os (sample_died True, sample_world)))"
      and x = "snd (Engine_on_closing sample_os (sample_died True, sample_world))"]
  by (simp add: sample_died_def sample_started_eq sample_world_def sample_os_def
        Engine_on_closing_def Engine_start_def new_Socket_def notify_engine_event_def
        notify_def process_terminated_def format_returncode_def str_int_def str_nat.simps)

text \<open>
  C8, as stated, fails: when the socket cannot be made, \<open>Engine.start\<close> raises nothing
  but the engine keeps the process that was spawned.
\<close>

theorem start_failure_keeps_process_counterexample:
  "Socket_raises sample_os_no_socket = Some ''Too many open files'' \<and>
   snd (Engine_start sample_os_no_socket (new_Engine ''/data'' ''ipc://conn-0'', sample_world))
     = None \<and>
   process (fst (fst (Engine_start sample_os_no_socket
                        (new_Engine ''/data'' ''ipc://conn-0'', sample_world)))) =
     Some \<lparr> args = [''/bin/jamovi-engine'', ''--con=ipc://conn-0'', ''--path=/data''],
            returncode = None \<rparr>"
  by (simp add: Engine_start_def start_failed_def sample_os_no_socket_def sample_os_def
        new_Engine_def)

text \<open>
  C8, amended. Whichever step of \<open>Engine.start\<close> raises, the call raises nothing, calls
  the engine-event listeners once with an error event carrying the cause, and leaves the
  engine with what the steps before the failing one assigned: nothing when the process
  could not be spawned, the new process when the socket could not be made, the process and
  the socket when a later step failed. The thread is never a started one after a failure
  of its start.
\<close>

theorem start_failure_reported:
  assumes "Engine_start os (e, w) = ((e', w'), x)"
    and "proc = \<lparr> args = [exe_path os, ''--con='' @ conn_path e, ''--path='' @ data_path e],
                  returncode = None \<rparr>"
  shows "(\<forall>c. Popen_raises os = Some c \<longrightarrow>
            x = None \<and> e' = e \<and> w' = notify_engine_event (could_not_be_started c) w) \<and>
         (\<forall>c. Popen_raises os = None \<and> Socket_raises os = Some c \<longrightarrow>
            x = None \<and> e' = e\<lparr>process := Some proc\<rparr> \<and>
            w' = notify_engine_event (could_not_be_started c) w) \<and>
         (\<forall>c. Popen_raises os = None \<and> Socket_raises os = None \<and>
              set_recv_timeout_raises os = Some c \<longrightarrow>
            x = None \<and> e' = e\<lparr>process := Some proc, socket := Some new_Socket\<rparr> \<and>
            w' = notify_engine_event (could_not_be_started c) w) \<and>
         (\<forall>c. Popen_raises os = None \<and> Socket_raises os = None \<and>
              set_recv_timeout_raises os = None \<and> bind_raises os = Some c \<longrightarrow>
            x = None \<and>
            e' = e\<lparr>process := Some proc,
                   socket := Some (new_Socket\<lparr>recv_timeout := Some 500\<rparr>)\<rparr> \<and>
            w' = notify_engine_event (could_not_be_started c) w) \<and>
         (\<forall>c. Popen_raises os = None \<and> Socket_raises os = None \<and>
              set_recv_timeout_raises os = None \<and> bind_raises os = None \<and>
              Thread_start_raises os = Some c \<longrightarrow>
            x = None \<and>
            e' = e\<lparr>process := Some proc,
                   socket := Some (new_Socket\<lparr>recv_timeout := Some 500,
                                               bound := Some (conn_path e)\<rparr>),
                   thread := Some \<lparr>started = False\<rparr>\<rparr> \<and>
            w' = notify_engine_event (could_not_be_started c) w)"
  using assms
  by (auto simp: Engine_start_def start_failed_def Let_def split: option.splits)

theorem start_failure_reported_witness:
  "Engine_start sample_os_no_exe (new_Engine ''/data'' ''ipc://conn-0'', sample_world) =
     ((new_Engine ''/data'' ''ipc://conn-0'',
       notify_engine_event (could_not_be_started ''No such file or directory'') sample_world),
      None) \<and>
   called (notify_engine_event (could_not_be_started ''No such file or directory'')
             sample_world) =
     [(5, Event \<lparr> ev_type = ''error'', ev_message = ''Engine process could not be started'',
                  ev_cause = ''No such file or directory'' \<rparr>)]"
  using
    start_failure_reported [where os = sample_os_no_exe
      and e = "new_Engine ''/data'' ''ipc://conn-0''" and w = sample_world
      and e' = "fst (fst (Engine_start sample_os_no_exe
                            (new_Engine ''/data'' ''ipc://conn-0'', sample_world)))"
      and w' = "snd (fst (Engine_start sample_os_no_exe
                            (new_Engine ''/data'' ''ipc://conn-0'', sample_world)))"
      and x = "snd (Engine_start sample_os_no_exe
                      (new_Engine ''/data'' ''ipc://conn-0'', sample_world))"
      and proc = "\<lparr> args = [exe_path sample_os_no_exe, ''--con='' @ ''ipc://conn-0'',
                             ''--path='' @ ''/data''], returncode = None \<rparr>"]
  by (simp add: sample_os_no_exe_def sample_os_def new_Engine_def prod_eq_iff
        notify_engine_event_def notify_def could_not_be_started_def sample_world_def)

text \<open>
  C9. A manager whose first engine could not be spawned: the failure was reported to the
  engine-event listener and the engine has no socket. \<open>EngineManager.stop\<close> then raises
  \<open>AttributeError\<close> at the first engine and the other two engines are never told to
  stop.
\<close>

theorem pool_stop_after_spawn_failure:
  "map (\<lambda>e. socket e = None) (fst sample_pool_failed) = [True, False, False] \<and>
   called (snd sample_pool_failed) =
     [(5, Event (could_not_be_started ''No such file or directory''))] \<and>
   snd (EngineManager_stop sample_pool_failed) = Some AttributeError \<and>
   map stopping (fst (fst (EngineManager_stop sample_pool_failed))) = [True, False, False] \<and>
   map (\<lambda>e. map_option sent (socket e)) (fst (fst (EngineManager_stop sample_pool_failed))) =
     [None, Some [], Some []]"
  by (simp add: sample_pool_failed_def sample_pool_def new_EngineManager_def
        EngineManager_start_def EngineManager_stop_def Engine_start_def Engine_stop_def send_request_def fits_uint64_def
        start_failed_def socket_send_def sample_os_no_exe_def sample_os_def new_Engine_def
        new_Socket_def add_engine_listener_def notify_engine_event_def notify_def
        upt_conv_Cons)







end
